theory Spec2Isabelle
  imports Main "HOL-Library.AList" "HOL-Library.Sublist"
begin

section \<open>Values, responses and effects\<close>

text \<open>
  The scripts handle whatever \<^verbatim>\<open>response.json()\<close> returns: a Python value made of
  \<^verbatim>\<open>None\<close>, booleans, integers, floating-point numbers, strings, lists and
  dictionaries. A dictionary is an association list in insertion order, looked up with
  \<open>map_of\<close>. A floating-point number is given by its \<^verbatim>\<open>repr\<close>; the scripts only test
  its truth value and print it. A string is a list of characters, one per code point,
  over the 256 characters of \<open>char\<close>: a string holding a code point above U+00FF has no
  term here, and the properties below speak of the bodies that have one.
\<close>

datatype json =
    JNull
  | JBool bool
  | JInt int
  | JFloat string
  | JStr string
  | JArr "json list"
  | JObj "(string \<times> json) list"

text \<open>Python's truth value of an object, as tested by \<^verbatim>\<open>if x:\<close> and \<^verbatim>\<open>not x\<close>.\<close>

fun truthy :: "json \<Rightarrow> bool" where
  "truthy JNull = False"
| "truthy (JBool b) = b"
| "truthy (JInt i) = (i \<noteq> 0)"
| "truthy (JFloat r) = (r \<noteq> ''0.0'' \<and> r \<noteq> ''-0.0'')"
| "truthy (JStr s) = (s \<noteq> [])"
| "truthy (JArr xs) = (xs \<noteq> [])"
| "truthy (JObj ps) = (ps \<noteq> [])"

text \<open>
  What \<^verbatim>\<open>response.json()\<close> does: it returns the parsed body, or raises. Depending on the
  version of the requests library the decoding error is a \<^verbatim>\<open>RequestException\<close> or a plain
  \<^verbatim>\<open>ValueError\<close>; a simulated response says which.
\<close>

datatype json_result =
    Parsed json
  | Raises_request_exception string
  | Raises_value_error

text \<open>
  A response of the requests library: its status code, the message the library gives the
  \<^verbatim>\<open>HTTPError\<close> it raises for that status, the text of the body and what
  \<^verbatim>\<open>json()\<close> does.
\<close>

datatype response =
  Response (status_code: nat) (error_message: string) (body_text: string)
    (json_result: json_result)

text \<open>
  \<^verbatim>\<open>raise_for_status()\<close> of the library: it raises \<^verbatim>\<open>HTTPError\<close> for a status from 400
  to 599 (\<open>Some\<close> its message) and returns for every other status (\<open>None\<close>).
\<close>

definition http_error :: "response \<Rightarrow> string option" where
  "http_error r =
     (if 400 \<le> status_code r \<and> status_code r < 600 then Some (error_message r) else None)"

text \<open>The library's \<^verbatim>\<open>ok\<close> attribute, which is also the truth value of a response object.\<close>

definition ok :: "response \<Rightarrow> bool" where
  "ok r = (http_error r = None)"

datatype request_exception =
  RequestException (message: string) (response: "response option")

text \<open>A Python exception that no handler of the scripts catches.\<close>

datatype py_exn = TypeError | KeyError | AttributeError | ValueError | UnicodeEncodeError

datatype request =
  Request (http_method: string) (url: string) (json_payload: "json option")
    (headers: "(string \<times> json) list")

text \<open>The remote service: what one HTTP call raises or returns.\<close>

datatype net_outcome = Raises request_exception | Returns response

type_synonym net = "request \<Rightarrow> net_outcome"

text \<open>
  A printed line is the list of the parts of its f-string: \<open>Lit\<close> is literal text,
  \<open>Str v\<close> is \<^verbatim>\<open>{v}\<close>, the value \<open>v\<close> formatted by \<^verbatim>\<open>str\<close>.
\<close>

datatype frag = Lit string | Str json

text \<open>
  The observable effects of a run, in order: a printed line, an HTTP call, an assignment
  to \<^verbatim>\<open>self.api_key\<close>, a file written with its content. Every printed line is taken
  to reach the standard output.
\<close>

datatype event =
    Print "frag list"
  | Http request
  | Store_api_key json
  | Write_file string string

fun is_http :: "event \<Rightarrow> bool" where
  "is_http (Http _) = True"
| "is_http _ = False"

fun is_store :: "event \<Rightarrow> bool" where
  "is_store (Store_api_key _) = True"
| "is_store _ = False"

section \<open>The client\<close>

text \<open>
  \<^verbatim>\<open>CrawlioClient\<close>: the base address, the token (\<open>JNull\<close> is \<^verbatim>\<open>None\<close>; the token
  is whatever value the server sent or the caller assigned), and the session handle.
\<close>

record client =
  base_url :: string
  api_key :: json
  session :: nat

text \<open>
  An operation yields the events it caused, the client after the call, and its return
  value (\<open>Inr\<close>) or the exception that leaves it uncaught (\<open>Inl\<close>).
\<close>

record 'a run =
  events :: "event list"
  state :: client
  result :: "py_exn + 'a"

text \<open>\<^verbatim>\<open>base_url.rstrip('/')\<close>.\<close>

definition rstrip_slash :: "string \<Rightarrow> string" where
  "rstrip_slash s = rev (dropWhile (\<lambda>c. c = CHR ''/'') (rev s))"

definition init_client :: "nat \<Rightarrow> string \<Rightarrow> client" where
  "init_client handle b = \<lparr>base_url = rstrip_slash b, api_key = JNull, session = handle\<rparr>"

definition default_base_url :: string where
  "default_base_url = ''http://localhost:3002''"

text \<open>
  The body of the handlers of \<^verbatim>\<open>register_user\<close> and \<^verbatim>\<open>crawl_url\<close> after their first
  line: the error payload is printed when the exception carries a response whose truth
  value is true.
\<close>

definition print_error_details :: "request_exception \<Rightarrow> event list" where
  "print_error_details e =
     (case response e of
        None \<Rightarrow> []
      | Some r \<Rightarrow>
          if ok r then
            (case json_result r of
               Parsed error_data \<Rightarrow> [Print [Lit ''Error details: '', Str error_data]]
             | _ \<Rightarrow> [Print [Lit ''Response: '', Str (JStr (body_text r))]])
          else [])"

text \<open>\<^verbatim>\<open>data.get('api_key')\<close> on a dictionary.\<close>

definition dict_get :: "(string \<times> json) list \<Rightarrow> string \<Rightarrow> json \<Rightarrow> json" where
  "dict_get d k dflt = (case map_of d k of None \<Rightarrow> dflt | Some v \<Rightarrow> v)"

definition register_request :: "client \<Rightarrow> string \<Rightarrow> string \<Rightarrow> string \<Rightarrow> string \<Rightarrow> request" where
  "register_request c email password first_name last_name =
     Request ''POST'' (base_url c @ ''/api/auth/register'')
       (Some (JObj [(''email'', JStr email), (''password'', JStr password),
                    (''first_name'', JStr first_name), (''last_name'', JStr last_name)]))
       []"

definition register_failed :: "client \<Rightarrow> event list \<Rightarrow> request_exception \<Rightarrow> bool run" where
  "register_failed c pre e =
     \<lparr>events = pre @ [Print [Lit ''Registration failed: '', Str (JStr (message e))]]
                  @ print_error_details e,
      state = c, result = Inr False\<rparr>"

definition register_user ::
  "net \<Rightarrow> client \<Rightarrow> string \<Rightarrow> string \<Rightarrow> string \<Rightarrow> string \<Rightarrow> bool run" where
  "register_user net c email password first_name last_name =
     (let req = register_request c email password first_name last_name;
          pre = [Print [Lit ''Registering user: '', Str (JStr email)], Http req]
      in case net req of
           Raises e \<Rightarrow> register_failed c pre e
         | Returns r \<Rightarrow>
             (case http_error r of
                Some msg \<Rightarrow> register_failed c pre (RequestException msg (Some r))
              | None \<Rightarrow>
                  (case json_result r of
                     Raises_request_exception msg \<Rightarrow>
                       register_failed c pre (RequestException msg None)
                   | Raises_value_error \<Rightarrow>
                       \<lparr>events = pre, state = c, result = Inl ValueError\<rparr>
                   | Parsed (JObj d) \<Rightarrow>
                       (let k = dict_get d ''api_key'' JNull;
                            c' = c\<lparr>api_key := k\<rparr>
                        in if truthy k then
                             \<lparr>events = pre @ [Store_api_key k,
                                  Print [Lit ''Registration successful!''],
                                  Print [Lit ''API Key: '', Str k]],
                              state = c', result = Inr True\<rparr>
                           else
                             \<lparr>events = pre @ [Store_api_key k,
                                  Print [Lit ''Registration failed - no API key received'']],
                              state = c', result = Inr False\<rparr>)
                   | Parsed _ \<Rightarrow>
                       \<lparr>events = pre, state = c, result = Inl AttributeError\<rparr>)))"

definition no_api_key :: "client \<Rightarrow> json run" where
  "no_api_key c =
     \<lparr>events = [Print [Lit ''No API key available. Please register first.'']],
      state = c, result = Inr JNull\<rparr>"

definition crawl_request :: "client \<Rightarrow> string \<Rightarrow> json \<Rightarrow> request" where
  "crawl_request c target options =
     Request ''POST'' (base_url c @ ''/api/crawl/url'')
       (Some (JObj ([(''url'', JStr target)]
                     @ (if truthy options then [(''options'', options)] else []))))
       [(''Content-Type'', JStr ''application/json''), (''x-api-key'', api_key c)]"

definition crawl_failed :: "client \<Rightarrow> event list \<Rightarrow> request_exception \<Rightarrow> json run" where
  "crawl_failed c pre e =
     \<lparr>events = pre @ [Print [Lit ''Crawling failed: '', Str (JStr (message e))]]
                  @ print_error_details e,
      state = c, result = Inr JNull\<rparr>"

definition crawl_url :: "net \<Rightarrow> client \<Rightarrow> string \<Rightarrow> json \<Rightarrow> json run" where
  "crawl_url net c target options =
     (if \<not> truthy (api_key c) then no_api_key c
      else
        let req = crawl_request c target options;
            pre = [Print [Lit ''Crawling: '', Str (JStr target)], Http req]
        in case net req of
             Raises e \<Rightarrow> crawl_failed c pre e
           | Returns r \<Rightarrow>
               (case http_error r of
                  Some msg \<Rightarrow> crawl_failed c pre (RequestException msg (Some r))
                | None \<Rightarrow>
                    (case json_result r of
                       Raises_request_exception msg \<Rightarrow>
                         crawl_failed c pre (RequestException msg None)
                     | Raises_value_error \<Rightarrow>
                         \<lparr>events = pre, state = c, result = Inl ValueError\<rparr>
                     | Parsed data \<Rightarrow>
                         \<lparr>events = pre @ [Print [Lit ''Crawling completed successfully!'']],
                          state = c, result = Inr data\<rparr>)))"

definition history_request :: "client \<Rightarrow> request" where
  "history_request c =
     Request ''GET'' (base_url c @ ''/api/crawl/history'') None [(''x-api-key'', api_key c)]"

definition history_failed :: "client \<Rightarrow> event list \<Rightarrow> request_exception \<Rightarrow> json run" where
  "history_failed c pre e =
     \<lparr>events = pre @ [Print [Lit ''Failed to get history: '', Str (JStr (message e))]],
      state = c, result = Inr JNull\<rparr>"

definition get_crawl_history :: "net \<Rightarrow> client \<Rightarrow> json run" where
  "get_crawl_history net c =
     (if \<not> truthy (api_key c) then no_api_key c
      else
        let req = history_request c;
            pre = [Print [Lit ''Fetching crawl history...''], Http req]
        in case net req of
             Raises e \<Rightarrow> history_failed c pre e
           | Returns r \<Rightarrow>
               (case http_error r of
                  Some msg \<Rightarrow> history_failed c pre (RequestException msg (Some r))
                | None \<Rightarrow>
                    (case json_result r of
                       Raises_request_exception msg \<Rightarrow>
                         history_failed c pre (RequestException msg None)
                     | Raises_value_error \<Rightarrow>
                         \<lparr>events = pre, state = c, result = Inl ValueError\<rparr>
                     | Parsed data \<Rightarrow>
                         \<lparr>events = pre @ [Print [Lit ''History retrieved successfully!'']],
                          state = c, result = Inr data\<rparr>)))"

section \<open>Python operations used by the driver scripts\<close>

text \<open>Sequencing of expressions that may raise.\<close>

definition and_then :: "py_exn + 'a \<Rightarrow> ('a \<Rightarrow> py_exn + 'b) \<Rightarrow> py_exn + 'b" where
  "and_then x f = (case x of Inl e \<Rightarrow> Inl e | Inr v \<Rightarrow> f v)"

text \<open>
  \<^verbatim>\<open>key in x\<close> for a string \<open>key\<close>: membership among the keys of a dictionary, among the
  elements of a list, substring of a string; any other value is not iterable.
\<close>

fun py_contains :: "string \<Rightarrow> json \<Rightarrow> py_exn + bool" where
  "py_contains k (JObj d) = Inr (k \<in> set (map fst d))"
| "py_contains k (JArr xs) = Inr (JStr k \<in> set xs)"
| "py_contains k (JStr s) = Inr (sublist k s)"
| "py_contains k _ = Inl TypeError"

text \<open>\<^verbatim>\<open>x[key]\<close> for a string \<open>key\<close>.\<close>

fun py_getitem :: "json \<Rightarrow> string \<Rightarrow> py_exn + json" where
  "py_getitem (JObj d) k = (case map_of d k of None \<Rightarrow> Inl KeyError | Some v \<Rightarrow> Inr v)"
| "py_getitem _ k = Inl TypeError"

text \<open>\<^verbatim>\<open>x.get(key, default)\<close>: only a dictionary has the method.\<close>

fun py_get :: "json \<Rightarrow> string \<Rightarrow> json \<Rightarrow> py_exn + json" where
  "py_get (JObj d) k dflt = Inr (dict_get d k dflt)"
| "py_get _ k dflt = Inl AttributeError"

fun py_len :: "json \<Rightarrow> py_exn + nat" where
  "py_len (JStr s) = Inr (length s)"
| "py_len (JArr xs) = Inr (length xs)"
| "py_len (JObj d) = Inr (length d)"
| "py_len _ = Inl TypeError"

text \<open>\<^verbatim>\<open>x[:n]\<close>. A dictionary rejects a slice as a key.\<close>

fun py_slice_to :: "nat \<Rightarrow> json \<Rightarrow> py_exn + json" where
  "py_slice_to n (JStr s) = Inr (JStr (take n s))"
| "py_slice_to n (JArr xs) = Inr (JArr (take n xs))"
| "py_slice_to n _ = Inl TypeError"

text \<open>\<^verbatim>\<open>x + "..."\<close> with a string on the right.\<close>

fun py_add_str :: "json \<Rightarrow> string \<Rightarrow> py_exn + json" where
  "py_add_str (JStr s) t = Inr (JStr (s @ t))"
| "py_add_str _ t = Inl TypeError"

text \<open>\<^verbatim>\<open>x[0]\<close> on a value whose truth value is true.\<close>

fun py_first :: "json \<Rightarrow> py_exn + json" where
  "py_first (JArr (x # xs)) = Inr x"
| "py_first (JStr (c # cs)) = Inr (JStr [c])"
| "py_first (JObj d) = Inl KeyError"
| "py_first _ = Inl TypeError"

text \<open>The elements a \<^verbatim>\<open>for\<close> loop visits.\<close>

fun py_iter :: "json \<Rightarrow> py_exn + json list" where
  "py_iter (JArr xs) = Inr xs"
| "py_iter (JStr s) = Inr (map (\<lambda>c. JStr [c]) s)"
| "py_iter (JObj d) = Inr (map (\<lambda>p. JStr (fst p)) d)"
| "py_iter _ = Inl TypeError"

text \<open>\<^verbatim>\<open>str\<close> of an integer, as an f-string puts it into a file name or an address.\<close>

definition digit_char :: "nat \<Rightarrow> char" where
  "digit_char d = char_of (48 + d)"

fun str_nat :: "nat \<Rightarrow> string" where
  "str_nat n = (if n < 10 then [digit_char n] else str_nat (n div 10) @ [digit_char (n mod 10)])"

definition str_int :: "int \<Rightarrow> string" where
  "str_int i = (if i < 0 then CHR ''-'' # str_nat (nat (- i)) else str_nat (nat i))"

section \<open>The driver scripts\<close>

text \<open>
  A block of statements yields the events it caused and the exception that ended it, if
  any. \<open>seq\<close> runs a second block after a first one that ended normally; \<open>with_value\<close>
  evaluates an expression and hands its value to the rest of the block.
\<close>

type_synonym block = "event list \<times> py_exn option"

definition emit :: "event list \<Rightarrow> block" where
  "emit evs = (evs, None)"

definition seq :: "block \<Rightarrow> block \<Rightarrow> block" where
  "seq a b = (case snd a of Some e \<Rightarrow> a | None \<Rightarrow> (fst a @ fst b, snd b))"

definition with_value :: "py_exn + 'a \<Rightarrow> ('a \<Rightarrow> block) \<Rightarrow> block" where
  "with_value x f = (case x of Inl e \<Rightarrow> ([], Some e) | Inr v \<Rightarrow> f v)"

text \<open>How a script ends: it returns, it calls \<^verbatim>\<open>sys.exit\<close>, or an exception is uncaught.\<close>

datatype ending = Returned | Exited nat | Uncaught py_exn

record script_run =
  trace :: "event list"
  ending :: ending

text \<open>How a run ends whose last block is \<open>b\<close>.\<close>

definition block_ending :: "block \<Rightarrow> ending" where
  "block_ending b = (case snd b of None \<Rightarrow> Returned | Some e \<Rightarrow> Uncaught e)"

definition finish :: "event list \<Rightarrow> block \<Rightarrow> script_run" where
  "finish pre b = \<lparr>trace = pre @ fst b, ending = block_ending b\<rparr>"

definition crawl_options :: json where
  "crawl_options =
     JObj [(''extractText'', JBool True), (''extractLinks'', JBool True),
           (''extractMeta'', JBool True), (''screenshot'', JBool False)]"

definition target_url :: string where
  "target_url = ''https://www.wikipedia.org/''"

text \<open>
  The preview of \<^verbatim>\<open>crawlio_client.py\<close> and \<^verbatim>\<open>crawl_wiki.py\<close>:
  \<^verbatim>\<open>data['text'][:200] + "..." if len(data['text']) > 200 else data['text']\<close>.
\<close>

definition text_preview :: "json \<Rightarrow> py_exn + json" where
  "text_preview data =
     and_then (py_getitem data ''text'') (\<lambda>t.
     and_then (py_len t) (\<lambda>n.
       if n > 200 then and_then (py_slice_to 200 t) (\<lambda>h. py_add_str h ''...'')
       else Inr t))"

text \<open>The preview of \<^verbatim>\<open>simple_crawler.py\<close>: \<^verbatim>\<open>data['data']['text'][:200] + "..."\<close>.\<close>

definition text_preview_simple :: "json \<Rightarrow> py_exn + json" where
  "text_preview_simple data =
     and_then (py_getitem data ''data'') (\<lambda>d.
     and_then (py_getitem d ''text'') (\<lambda>t.
     and_then (py_slice_to 200 t) (\<lambda>h. py_add_str h ''...'')))"

definition print_text_preview :: "json \<Rightarrow> block" where
  "print_text_preview data =
     with_value (py_contains ''text'' data) (\<lambda>has_text.
       if has_text then
         with_value (text_preview data) (\<lambda>p. emit [Print [Lit ''Text Preview: '', Str p]])
       else emit [])"

text \<open>The loop over \<^verbatim>\<open>enumerate(data['sections'][:3])\<close>, from index \<open>i\<close> on.\<close>

fun print_section_titles :: "nat \<Rightarrow> json list \<Rightarrow> block" where
  "print_section_titles i [] = emit []"
| "print_section_titles i (section # rest) =
     with_value (py_get section ''title'' (JStr ''Untitled'')) (\<lambda>title.
       seq (emit [Print [Lit ''  '', Str (JInt (int i + 1)), Lit ''. '', Str title]])
           (print_section_titles (Suc i) rest))"

definition print_sections :: "bool \<Rightarrow> json \<Rightarrow> block" where
  "print_sections titles data =
     with_value (py_contains ''sections'' data) (\<lambda>has_sections.
       if has_sections then
         with_value (py_getitem data ''sections'') (\<lambda>sections.
           if truthy sections then
             with_value (py_len sections) (\<lambda>n.
               seq (emit [Print [Lit ''Sections Found: '', Str (JInt (int n))]])
                   (if titles then
                      with_value (py_slice_to 3 sections) (\<lambda>first3.
                      with_value (py_iter first3) (\<lambda>xs. print_section_titles 0 xs))
                    else emit []))
           else emit [])
       else emit [])"

definition print_metadata :: "bool \<Rightarrow> json \<Rightarrow> block" where
  "print_metadata with_length r =
     with_value (py_contains ''metadata'' r) (\<lambda>has_metadata.
       if has_metadata then
         with_value (py_getitem r ''metadata'') (\<lambda>metadata.
         with_value (py_get metadata ''finalUrl'' (JStr ''N/A'')) (\<lambda>final_url.
         with_value (py_get metadata ''loadTime'' (JStr ''N/A'')) (\<lambda>load_time.
           seq (emit [Print [Lit ''Final URL: '', Str final_url],
                      Print [Lit ''Load Time: '', Str load_time, Lit ''ms'']])
               (if with_length then
                  with_value (py_get metadata ''contentLength'' (JStr ''N/A'')) (\<lambda>n.
                    emit [Print [Lit ''Content Length: '', Str n, Lit '' bytes'']])
                else emit []))))
       else emit [])"

text \<open>
  The summary both client scripts print for a result whose truth value is true; only
  \<^verbatim>\<open>crawlio_client.py\<close> lists section titles.
\<close>

definition print_summary :: "bool \<Rightarrow> json \<Rightarrow> block" where
  "print_summary titles r =
     seq (with_value (py_contains ''data'' r) (\<lambda>has_data.
            if has_data then
              with_value (py_getitem r ''data'') (\<lambda>data.
                seq (print_text_preview data) (print_sections titles data))
            else emit []))
         (print_metadata True r)"

text \<open>
  \<^verbatim>\<open>json.dump\<close> belongs to the standard library, so the scripts take it as given:
  \<open>dump v\<close> is the text \<^verbatim>\<open>json.dump(v, f, indent=2, ensure_ascii=False)\<close> gets into the
  file \<open>f\<close>, opened for writing in UTF-8, and the exception it raises, if any (the text is
  then what was written before). The statement
  \<^verbatim>\<open>with open(name, 'w', encoding='utf-8') as f: json.dump(r, f, ...)\<close> leaves the file
  with that text and lets the exception through. The file is taken to open.
\<close>

type_synonym dump = "json \<Rightarrow> string \<times> py_exn option"

definition save_result :: "dump \<Rightarrow> string \<Rightarrow> json \<Rightarrow> block" where
  "save_result dump name r = ([Write_file name (fst (dump r))], snd (dump r))"

definition print_history :: "json \<Rightarrow> block" where
  "print_history history =
     (if truthy history then
        with_value (py_contains ''jobs'' history) (\<lambda>has_jobs.
          if has_jobs then
            with_value (py_getitem history ''jobs'') (\<lambda>jobs.
            with_value (py_len jobs) (\<lambda>n.
              seq (emit [Print [Lit ''Total crawl jobs: '', Str (JInt (int n))]])
                  (if truthy jobs then
                     with_value (py_first jobs) (\<lambda>latest_job.
                     with_value (py_get latest_job ''job_id'' (JStr ''N/A'')) (\<lambda>job_id.
                     with_value (py_get latest_job ''created_at'' (JStr ''N/A'')) (\<lambda>created.
                       emit [Print [Lit ''Latest Job ID: '', Str job_id],
                             Print [Lit ''Created: '', Str created]])))
                   else emit [])))
          else emit [])
      else emit [])"

text \<open>
  \<^verbatim>\<open>main\<close> of \<^verbatim>\<open>crawlio_client.py\<close>. \<open>timestamp\<close> is \<^verbatim>\<open>int(time.time())\<close>.
  After the registration the script has two steps: the crawl with its summary and the
  saved file, then the history fetch with its report; three closing lines follow.
\<close>

definition crawl_step :: "dump \<Rightarrow> net \<Rightarrow> int \<Rightarrow> client \<Rightarrow> block" where
  "crawl_step dump net timestamp c =
     (let crawl = crawl_url net c target_url crawl_options;
          output_file = ''crawl_result_'' @ str_int timestamp @ ''.json''
      in seq (emit ([Print [Lit (CHR 0x0A # ''2. Website Crawling'')],
                     Print [Lit (replicate 20 CHR ''-'')]] @ events crawl))
             (with_value (result crawl) (\<lambda>crawl_result.
                if truthy crawl_result then
                  seq (emit [Print [Lit (CHR 0x0A # ''Crawl Results Summary:'')],
                             Print [Lit (replicate 25 CHR ''-'')]])
                 (seq (print_summary True crawl_result)
                 (seq (save_result dump output_file crawl_result)
                      (emit [Print [Lit (CHR 0x0A # ''Full results saved to: ''),
                                    Str (JStr output_file)]])))
                else emit [])))"

definition history_step :: "net \<Rightarrow> client \<Rightarrow> block" where
  "history_step net c =
     (let hist = get_crawl_history net c
      in seq (emit ([Print [Lit (CHR 0x0A # ''3. Crawl History'')],
                     Print [Lit (replicate 15 CHR ''-'')]] @ events hist))
             (with_value (result hist) (\<lambda>history. print_history history)))"

definition closing_lines :: "client \<Rightarrow> block" where
  "closing_lines c =
     emit [Print [Lit (CHR 0x0A # ''Demo completed successfully!'')],
           Print [Lit ''Your API Key: '', Str (api_key c)],
           Print [Lit (CHR 0x0A # ''You can now use this API key for future requests!'')]]"

text \<open>The registration \<^verbatim>\<open>main\<close> makes on a new client, with the address it builds.\<close>

definition demo_registration :: "net \<Rightarrow> int \<Rightarrow> bool run" where
  "demo_registration net timestamp =
     register_user net (init_client 0 default_base_url)
       (''testuser_'' @ str_int timestamp @ ''@example.com'') ''testpass123'' ''Test'' ''User''"

definition client_main :: "dump \<Rightarrow> net \<Rightarrow> int \<Rightarrow> script_run" where
  "client_main dump net timestamp =
     (let reg = demo_registration net timestamp;
          pre = [Print [Lit ''Crawlio API Client Demo''],
                 Print [Lit (replicate 50 CHR ''='')],
                 Print [Lit (CHR 0x0A # ''1. User Registration'')],
                 Print [Lit (replicate 20 CHR ''-'')]] @ events reg
      in case result reg of
           Inl e \<Rightarrow> \<lparr>trace = pre, ending = Uncaught e\<rparr>
         | Inr success \<Rightarrow>
             if \<not> success then
               \<lparr>trace = pre @ [Print [Lit ''Failed to register user. Exiting...'']],
                ending = Exited 1\<rparr>
             else
               (let c1 = state reg;
                    c2 = state (crawl_url net c1 target_url crawl_options);
                    c3 = state (get_crawl_history net c2)
                in finish pre
                     (seq (crawl_step dump net timestamp c1)
                     (seq (history_step net c2) (closing_lines c3)))))"

text \<open>\<^verbatim>\<open>main\<close> of \<^verbatim>\<open>crawl_wiki.py\<close>, which assigns the token itself.\<close>

definition wiki_api_key :: string where
  "wiki_api_key = ''0IsGoeQuG0jpWgG5ehwPkRMDWgmfyzjv''"

definition wiki_main :: "net \<Rightarrow> script_run" where
  "wiki_main net =
     (let c = (init_client 0 default_base_url)\<lparr>api_key := JStr wiki_api_key\<rparr>;
          crawl = crawl_url net c target_url crawl_options;
          pre = [Store_api_key (JStr wiki_api_key),
                 Print [Lit ''Crawling https://www.wikipedia.org/ using existing API key...'']]
                @ events crawl
      in case result crawl of
           Inl e \<Rightarrow> \<lparr>trace = pre, ending = Uncaught e\<rparr>
         | Inr r \<Rightarrow>
             if truthy r then
               finish pre (seq (emit [Print [Lit ''Crawl successful!'']])
                               (print_summary False r))
             else \<lparr>trace = pre @ [Print [Lit ''Crawl failed'']], ending = Returned\<rparr>)"

text \<open>
  \<^verbatim>\<open>simple_crawler.py\<close>. The cross mark its messages start with is written in UTF-8.
\<close>

definition cross_mark :: string where
  "cross_mark = [CHR 0xE2, CHR 0x9D, CHR 0x8C]"

definition simple_request :: "string \<Rightarrow> string \<Rightarrow> string \<Rightarrow> request" where
  "simple_request key target base =
     Request ''POST'' (base @ ''/api/crawl/url'')
       (Some (JObj [(''url'', JStr target), (''options'', crawl_options)]))
       [(''Content-Type'', JStr ''application/json''), (''x-api-key'', JStr key)]"

definition simple_crawl_failed :: "event list \<Rightarrow> request_exception \<Rightarrow> event list \<times> (py_exn + json)" where
  "simple_crawl_failed pre e =
     (pre @ [Print [Lit (cross_mark @ '' Crawling failed: ''), Str (JStr (message e))]],
      Inr JNull)"

definition print_simple_summary :: "json \<Rightarrow> block" where
  "print_simple_summary data =
     seq (with_value (py_contains ''data'' data) (\<lambda>has_data.
            if has_data then
              with_value (py_getitem data ''data'') (\<lambda>d.
              with_value (py_contains ''text'' d) (\<lambda>has_text.
                if has_text then
                  with_value (text_preview_simple data) (\<lambda>p.
                    emit [Print [Lit ''Text Preview: '', Str p]])
                else emit []))
            else emit []))
         (print_metadata False data)"

definition crawl_with_api_key ::
  "net \<Rightarrow> string \<Rightarrow> string \<Rightarrow> string \<Rightarrow> event list \<times> (py_exn + json)" where
  "crawl_with_api_key net key target base =
     (let req = simple_request key target base;
          pre = [Print [Lit ''Crawling: '', Str (JStr target)], Http req]
      in case net req of
           Raises e \<Rightarrow> simple_crawl_failed pre e
         | Returns r \<Rightarrow>
             (case http_error r of
                Some msg \<Rightarrow> simple_crawl_failed pre (RequestException msg (Some r))
              | None \<Rightarrow>
                  (case json_result r of
                     Raises_request_exception msg \<Rightarrow>
                       simple_crawl_failed pre (RequestException msg None)
                   | Raises_value_error \<Rightarrow> (pre, Inl ValueError)
                   | Parsed data \<Rightarrow>
                       (let b = seq (emit [Print [Lit ''Crawling completed successfully!'']])
                                    (print_simple_summary data)
                        in (pre @ fst b,
                            case snd b of None \<Rightarrow> Inr data | Some e \<Rightarrow> Inl e)))))"

definition placeholder_key :: string where
  "placeholder_key = ''YOUR_API_KEY_HERE''"

text \<open>
  \<^verbatim>\<open>main\<close> of \<^verbatim>\<open>simple_crawler.py\<close>, for the value \<open>API_KEY\<close> of its constant (the file
  as it stands holds the placeholder).
\<close>

definition simple_main :: "dump \<Rightarrow> string \<Rightarrow> net \<Rightarrow> int \<Rightarrow> script_run" where
  "simple_main dump API_KEY net timestamp =
     (if API_KEY = placeholder_key then
        \<lparr>trace = [Print [Lit (cross_mark @
                     '' Please replace YOUR_API_KEY_HERE with your actual API key'')],
                  Print [Lit ''Get your API key by running: python crawlio_client.py'']],
         ending = Exited 1\<rparr>
      else
        let crawl = crawl_with_api_key net API_KEY target_url default_base_url;
            pre = [Print [Lit ''Simple Crawlio API Client''],
                   Print [Lit (replicate 40 CHR ''='')]] @ fst crawl
        in case snd crawl of
             Inl e \<Rightarrow> \<lparr>trace = pre, ending = Uncaught e\<rparr>
           | Inr r \<Rightarrow>
               if truthy r then
                 (let filename = ''simple_crawl_'' @ str_int timestamp @ ''.json''
                  in finish pre
                       (seq (save_result dump filename r)
                            (emit [Print [Lit ''Results saved to: '', Str (JStr filename)],
                                   Print [Lit ''Crawl completed successfully!'']])))
               else \<lparr>trace = pre, ending = Returned\<rparr>)"

section \<open>Simulated servers and clients\<close>

text \<open>
  A call fails when the transport raises or when \<^verbatim>\<open>raise_for_status()\<close> raises, that
  is, on a status from 400 to 599.
\<close>

fun failing :: "net_outcome \<Rightarrow> bool" where
  "failing (Raises e) = True"
| "failing (Returns r) = (http_error r \<noteq> None)"

definition server_down :: net where
  "server_down req = Raises (RequestException ''Connection refused'' None)"

definition server_error :: net where
  "server_error req =
     Returns (Response 500 ''500 Server Error'' ''Internal Server Error'' Raises_value_error)"

text \<open>A server that answers every call with the given status and a JSON body.\<close>

definition server_status :: "nat \<Rightarrow> json \<Rightarrow> net" where
  "server_status code v req = Returns (Response code [] [] (Parsed v))"

definition server_body :: "json \<Rightarrow> net" where
  "server_body v req = Returns (Response 200 [] [] (Parsed v))"

definition fresh_client :: client where
  "fresh_client = init_client 0 default_base_url"

definition keyed_client :: client where
  "keyed_client = fresh_client\<lparr>api_key := JStr ''old-key''\<rparr>"

definition blank_key_client :: client where
  "blank_key_client = fresh_client\<lparr>api_key := JStr []\<rparr>"

definition wiki_client :: client where
  "wiki_client = fresh_client\<lparr>api_key := JStr wiki_api_key\<rparr>"

text \<open>A server that registers users and is unreachable for everything else.\<close>

definition server_register_only :: net where
  "server_register_only req =
     (if url req = default_base_url @ ''/api/auth/register''
      then Returns (Response 200 [] [] (Parsed (JObj [(''api_key'', JStr ''k1'')])))
      else Raises (RequestException ''Connection refused'' None))"

text \<open>Bodies a server may send with a success status.\<close>

definition unexpected_body :: json where
  "unexpected_body = JObj [(''status'', JStr ''queued'')]"

definition short_result :: json where
  "short_result = JObj [(''data'', JObj [(''text'', JStr ''abc'')])]"

text \<open>A diagnostic: a printed line whose literal text starts with the given words.\<close>

fun starts_with :: "string \<Rightarrow> event \<Rightarrow> bool" where
  "starts_with p (Print (Lit s # _)) = prefix p s"
| "starts_with p _ = False"

definition diagnosed :: "string \<Rightarrow> event list \<Rightarrow> bool" where
  "diagnosed p evs = list_ex (starts_with p) evs"


text \<open>
  A server that answers every operation with a success, the crawl with the given body,
  and a server that registers users and answers a crawl but fails the history fetch.
\<close>

definition demo_body :: json where
  "demo_body =
     JObj [(''data'', JObj [(''text'', JStr ''Wikipedia''), (''sections'', JArr [])]),
           (''metadata'', JObj [(''finalUrl'', JStr ''https://www.wikipedia.org/''),
                                (''loadTime'', JInt 305)])]"


definition server_without_history :: net where
  "server_without_history req =
     (if url req = default_base_url @ ''/api/auth/register''
      then Returns (Response 200 [] [] (Parsed (JObj [(''api_key'', JStr ''k1'')])))
      else if url req = default_base_url @ ''/api/crawl/url''
      then Returns (Response 200 [] [] (Parsed demo_body))
      else Returns (Response 503 ''503 Server Error'' [] Raises_value_error))"

text \<open>
  Two simulated \<^verbatim>\<open>json.dump\<close>: one writes the given text and returns, the other writes
  it and then raises.
\<close>

definition dump_writes :: "string \<Rightarrow> dump" where
  "dump_writes content v = (content, None)"


section \<open>Properties of the client operations\<close>

declare str_nat.simps [simp del]

lemma print_error_details_no_store: "filter is_store (print_error_details e) = []"
  by (simp add: print_error_details_def split: option.splits json_result.splits)

lemma print_error_details_no_http: "filter is_http (print_error_details e) = []"
  by (simp add: print_error_details_def split: option.splits json_result.splits)

lemmas client_defs = crawl_url_def get_crawl_history_def no_api_key_def crawl_failed_def
  history_failed_def register_user_def register_failed_def Let_def

lemmas fixture_defs = server_down_def server_error_def server_body_def server_status_def
  fresh_client_def keyed_client_def blank_key_client_def init_client_def default_base_url_def
  http_error_def

text \<open>
  C5. A client whose token is not set (\<^verbatim>\<open>None\<close>) gets the failure result \<^verbatim>\<open>None\<close> from
  \<^verbatim>\<open>crawl_url\<close> and from \<^verbatim>\<open>get_crawl_history\<close>, and neither issues an HTTP call:
  the only event is the printed notice.
\<close>

theorem no_token_short_circuits:
  "api_key c = JNull \<Longrightarrow>
     result (crawl_url net c target options) = Inr JNull \<and>
     events (crawl_url net c target options) =
       [Print [Lit ''No API key available. Please register first.'']] \<and>
     filter is_http (events (crawl_url net c target options)) = [] \<and>
     result (get_crawl_history net c) = Inr JNull \<and>
     events (get_crawl_history net c) =
       [Print [Lit ''No API key available. Please register first.'']] \<and>
     filter is_http (events (get_crawl_history net c)) = []"
  by (simp add: crawl_url_def get_crawl_history_def no_api_key_def)

theorem no_token_short_circuits_witness:
  "api_key fresh_client = JNull \<and>
   result (crawl_url (server_body (JObj [])) fresh_client target_url crawl_options) = Inr JNull \<and>
   filter is_http
     (events (crawl_url (server_body (JObj [])) fresh_client target_url crawl_options)) = [] \<and>
   result (get_crawl_history (server_body (JObj [])) fresh_client) = Inr JNull \<and>
   filter is_http (events (get_crawl_history (server_body (JObj [])) fresh_client)) = []"
proof -
  have h: "api_key fresh_client = JNull"
    by (simp add: fresh_client_def init_client_def)
  show ?thesis
    using h no_token_short_circuits [OF h, of "server_body (JObj [])" target_url crawl_options]
    by simp
qed

text \<open>
  C10. The presence check is a truth-value check: a client whose token was assigned the
  empty string is treated like one without a token. Both operations return \<^verbatim>\<open>None\<close>
  at once and issue no HTTP call.
\<close>

theorem empty_token_short_circuits:
  "api_key c = JStr [] \<Longrightarrow>
     result (crawl_url net c target options) = Inr JNull \<and>
     filter is_http (events (crawl_url net c target options)) = [] \<and>
     result (get_crawl_history net c) = Inr JNull \<and>
     filter is_http (events (get_crawl_history net c)) = []"
  by (simp add: crawl_url_def get_crawl_history_def no_api_key_def)

theorem empty_token_short_circuits_witness:
  "api_key blank_key_client = JStr [] \<and>
   result (crawl_url (server_body (JObj [])) blank_key_client target_url crawl_options)
     = Inr JNull \<and>
   filter is_http
     (events (crawl_url (server_body (JObj [])) blank_key_client target_url crawl_options)) = [] \<and>
   result (get_crawl_history (server_body (JObj [])) blank_key_client) = Inr JNull \<and>
   filter is_http (events (get_crawl_history (server_body (JObj [])) blank_key_client)) = []"
proof -
  have h: "api_key blank_key_client = JStr []"
    by (simp add: blank_key_client_def)
  show ?thesis
    using h empty_token_short_circuits [OF h, of "server_body (JObj [])" target_url crawl_options]
    by simp
qed

text \<open>
  C9. \<^verbatim>\<open>crawl_url\<close> and \<^verbatim>\<open>get_crawl_history\<close> return the client as they found it (token,
  base address and session handle) and never assign the token, whatever the outcome.
  \<^verbatim>\<open>register_user\<close> assigns the token at most once in a call and leaves the base address
  and the session handle alone.
\<close>

theorem only_register_writes_token:
  "state (crawl_url net c target options) = c \<and>
   state (get_crawl_history net c) = c \<and>
   filter is_store (events (crawl_url net c target options)) = [] \<and>
   filter is_store (events (get_crawl_history net c)) = [] \<and>
   length (filter is_store (events (register_user net c email password first_name last_name)))
     \<le> 1 \<and>
   base_url (state (register_user net c email password first_name last_name)) = base_url c \<and>
   session (state (register_user net c email password first_name last_name)) = session c"
  by (simp add: client_defs print_error_details_no_store
      split: net_outcome.splits option.splits json_result.splits json.splits)

text \<open>
  C7, as the code has it. When the call of an operation meets a connection error or a
  status from 400 to 599, the statuses for which \<^verbatim>\<open>raise_for_status()\<close> raises, the
  operation returns its failure result (\<^verbatim>\<open>False\<close> for register, \<^verbatim>\<open>None\<close> for crawl
  and history): it returns a value, so no exception leaves it.
\<close>

theorem error_status_yields_failure_result:
  "(net (register_request c email password first_name last_name) = Raises e \<or>
    net (register_request c email password first_name last_name) = Returns r \<and>
      400 \<le> status_code r \<and> status_code r < 600 \<longrightarrow>
      result (register_user net c email password first_name last_name) = Inr False) \<and>
   (net (crawl_request c target options) = Raises e \<or>
    net (crawl_request c target options) = Returns r \<and>
      400 \<le> status_code r \<and> status_code r < 600 \<longrightarrow>
      result (crawl_url net c target options) = Inr JNull) \<and>
   (net (history_request c) = Raises e \<or>
    net (history_request c) = Returns r \<and>
      400 \<le> status_code r \<and> status_code r < 600 \<longrightarrow>
      result (get_crawl_history net c) = Inr JNull)"
  by (auto simp add: client_defs http_error_def)

theorem error_status_yields_failure_result_witness:
  "server_down (register_request keyed_client ''a@example.com'' ''pw'' ''Ann'' ''Lee'')
     = Raises (RequestException ''Connection refused'' None) \<and>
   result (register_user server_down keyed_client ''a@example.com'' ''pw'' ''Ann'' ''Lee'')
     = Inr False \<and>
   server_error (crawl_request keyed_client target_url crawl_options)
     = Returns (Response 500 ''500 Server Error'' ''Internal Server Error'' Raises_value_error) \<and>
   result (crawl_url server_error keyed_client target_url crawl_options) = Inr JNull \<and>
   result (get_crawl_history server_error keyed_client) = Inr JNull"
  using error_status_yields_failure_result
          [of server_down keyed_client "''a@example.com''" "''pw''" "''Ann''" "''Lee''"
              "RequestException ''Connection refused'' None" _ target_url crawl_options]
        error_status_yields_failure_result
          [of server_error keyed_client "''a@example.com''" "''pw''" "''Ann''" "''Lee''" _
              "Response 500 ''500 Server Error'' ''Internal Server Error'' Raises_value_error"
              target_url crawl_options]
  by (simp add: server_down_def server_error_def)

text \<open>
  The claim C7 as stated fails for a status outside 200 to 299 that
  \<^verbatim>\<open>raise_for_status()\<close> lets through: on 304 with a JSON body the crawl returns the
  body and the registration returns \<^verbatim>\<open>True\<close>.
\<close>

theorem not_modified_is_success_counterexample:
  "server_status 304 unexpected_body (crawl_request keyed_client target_url crawl_options)
     = Returns (Response 304 [] [] (Parsed unexpected_body)) \<and>
   \<not> (200 \<le> (304 :: nat) \<and> (304 :: nat) < 300) \<and>
   result (crawl_url (server_status 304 unexpected_body) keyed_client target_url crawl_options)
     = Inr unexpected_body \<and>
   unexpected_body \<noteq> JNull \<and>
   result (register_user (server_status 304 (JObj [(''api_key'', JStr ''k1'')])) fresh_client
      ''a@example.com'' ''pw'' ''Ann'' ''Lee'') = Inr True"
  by (simp add: client_defs fixture_defs dict_get_def unexpected_body_def)

text \<open>
  C6, as the code has it. When the server answers a registration with a success status and
  a JSON object holding the token field, the stored token equals the value of that field,
  and the operation returns \<^verbatim>\<open>True\<close> exactly when the truth value of that value is true
  (for a string: when it is not empty).
\<close>

theorem register_stores_token_field:
  "net (register_request c email password first_name last_name) = Returns r \<Longrightarrow>
   http_error r = None \<Longrightarrow> json_result r = Parsed (JObj d) \<Longrightarrow>
   map_of d ''api_key'' = Some v \<Longrightarrow>
     api_key (state (register_user net c email password first_name last_name)) = v \<and>
     result (register_user net c email password first_name last_name) = Inr (truthy v)"
  by (simp add: client_defs dict_get_def)

theorem register_stores_token_field_witness:
  "api_key (state (register_user (server_body (JObj [(''api_key'', JStr ''k1'')])) fresh_client
      ''a@example.com'' ''pw'' ''Ann'' ''Lee'')) = JStr ''k1'' \<and>
   result (register_user (server_body (JObj [(''api_key'', JStr ''k1'')])) fresh_client
      ''a@example.com'' ''pw'' ''Ann'' ''Lee'') = Inr True"
  using register_stores_token_field
          [of "server_body (JObj [(''api_key'', JStr ''k1'')])" fresh_client
              "''a@example.com''" "''pw''" "''Ann''" "''Lee''"
              "Response 200 [] [] (Parsed (JObj [(''api_key'', JStr ''k1'')]))"
              "[(''api_key'', JStr ''k1'')]" "JStr ''k1''"]
  by (simp add: server_body_def http_error_def)

text \<open>
  The claim C6 as stated fails for a token field whose truth value is false: the server
  sends the field with an empty string, the token is stored, and the operation returns
  \<^verbatim>\<open>False\<close>.
\<close>

theorem register_empty_token_field_counterexample:
  "map_of [(''api_key'', JStr [])] ''api_key'' = Some (JStr []) \<and>
   api_key (state (register_user (server_body (JObj [(''api_key'', JStr [])])) fresh_client
      ''a@example.com'' ''pw'' ''Ann'' ''Lee'')) = JStr [] \<and>
   result (register_user (server_body (JObj [(''api_key'', JStr [])])) fresh_client
      ''a@example.com'' ''pw'' ''Ann'' ''Lee'') = Inr False"
  by (simp add: client_defs fixture_defs dict_get_def)

text \<open>
  C2, as the code has it. A registration call that meets a transport error or a failure
  status leaves the client as it was, assigns nothing and returns \<^verbatim>\<open>False\<close>. On a
  success status with a JSON object as body, the token is assigned the value of the
  token field, \<^verbatim>\<open>None\<close> when the field is absent, before the operation decides what to
  return; so a body without the token field leaves the token unset (\<^verbatim>\<open>None\<close>) and the
  operation returns \<^verbatim>\<open>False\<close>.
\<close>

theorem register_token_effect:
  "(failing (net (register_request c email password first_name last_name)) \<longrightarrow>
      state (register_user net c email password first_name last_name) = c \<and>
      filter is_store (events (register_user net c email password first_name last_name)) = [] \<and>
      result (register_user net c email password first_name last_name) = Inr False) \<and>
   (net (register_request c email password first_name last_name) = Returns r \<and>
    http_error r = None \<and> json_result r = Parsed (JObj d) \<longrightarrow>
      state (register_user net c email password first_name last_name)
        = c\<lparr>api_key := dict_get d ''api_key'' JNull\<rparr> \<and>
      result (register_user net c email password first_name last_name)
        = Inr (truthy (dict_get d ''api_key'' JNull))) \<and>
   (net (register_request c email password first_name last_name) = Returns r \<and>
    http_error r = None \<and> json_result r = Parsed (JObj d) \<and> map_of d ''api_key'' = None \<longrightarrow>
      api_key (state (register_user net c email password first_name last_name)) = JNull \<and>
      result (register_user net c email password first_name last_name) = Inr False)"
  by (auto simp add: client_defs dict_get_def print_error_details_no_store
        split: net_outcome.splits option.splits)

theorem register_token_effect_witness:
  "failing (server_down (register_request keyed_client ''a@example.com'' ''pw'' ''Ann'' ''Lee'')) \<and>
   state (register_user server_down keyed_client ''a@example.com'' ''pw'' ''Ann'' ''Lee'')
     = keyed_client \<and>
   result (register_user server_down keyed_client ''a@example.com'' ''pw'' ''Ann'' ''Lee'')
     = Inr False \<and>
   server_body (JObj []) (register_request fresh_client ''a@example.com'' ''pw'' ''Ann'' ''Lee'')
     = Returns (Response 200 [] [] (Parsed (JObj []))) \<and>
   api_key (state (register_user (server_body (JObj [])) fresh_client
      ''a@example.com'' ''pw'' ''Ann'' ''Lee'')) = JNull \<and>
   result (register_user (server_body (JObj [])) fresh_client
      ''a@example.com'' ''pw'' ''Ann'' ''Lee'') = Inr False"
  using register_token_effect
          [of server_down keyed_client "''a@example.com''" "''pw''" "''Ann''" "''Lee''"]
        register_token_effect
          [of "server_body (JObj [])" fresh_client "''a@example.com''" "''pw''" "''Ann''" "''Lee''"
              "Response 200 [] [] (Parsed (JObj []))" "[]"]
  by (simp add: server_down_def server_body_def dict_get_def http_error_def)

text \<open>
  The claim C2 as stated fails for a client that already holds a token: a success response
  without the token field makes the call fail, and the token it held is gone.
\<close>

theorem register_failure_clears_token_counterexample:
  "result (register_user (server_body (JObj [])) keyed_client
      ''a@example.com'' ''pw'' ''Ann'' ''Lee'') = Inr False \<and>
   api_key keyed_client = JStr ''old-key'' \<and>
   api_key (state (register_user (server_body (JObj [])) keyed_client
      ''a@example.com'' ''pw'' ''Ann'' ''Lee'')) = JNull"
  by (simp add: client_defs fixture_defs dict_get_def)

section \<open>Properties of the driver scripts\<close>

lemma register_failing: 
  "failing (net (register_request c email password first_name last_name)) \<Longrightarrow>
     register_user net c email password first_name last_name =
       register_failed c [Print [Lit ''Registering user: '', Str (JStr email)],
                          Http (register_request c email password first_name last_name)]
         (case net (register_request c email password first_name last_name) of
            Raises e \<Rightarrow> e | Returns r \<Rightarrow> RequestException (the (http_error r)) (Some r))"
  by (auto simp add: register_user_def Let_def split: net_outcome.splits option.splits)

lemma crawl_failing:
  "failing (net (crawl_request c target options)) \<Longrightarrow>
     result (crawl_url net c target options) = Inr JNull"
  by (auto simp add: client_defs split: net_outcome.splits option.splits)

lemma crawl_state: "state (crawl_url net c target options) = c"
  by (simp add: client_defs split: net_outcome.splits option.splits json_result.splits)

lemma history_state: "state (get_crawl_history net c) = c"
  by (simp add: client_defs split: net_outcome.splits option.splits json_result.splits)

lemma history_failing:
  "failing (net (history_request c)) \<Longrightarrow> result (get_crawl_history net c) = Inr JNull"
  by (auto simp add: client_defs split: net_outcome.splits option.splits)

lemma simple_failing:
  "failing (net (simple_request k target base)) \<Longrightarrow>
     snd (crawl_with_api_key net k target base) = Inr JNull"
  by (auto simp add: crawl_with_api_key_def simple_crawl_failed_def Let_def
      split: net_outcome.splits option.splits)



lemma text_preview_long:
  "map_of d ''text'' = Some (JStr t) \<Longrightarrow> 200 < length t \<Longrightarrow>
     text_preview (JObj d) = Inr (JStr (take 200 t @ ''...''))"
  by (simp add: text_preview_def and_then_def)

lemma text_preview_short:
  "map_of d ''text'' = Some (JStr t) \<Longrightarrow> length t \<le> 200 \<Longrightarrow>
     text_preview (JObj d) = Inr (JStr t)"
  by (simp add: text_preview_def and_then_def)

lemma text_preview_simple_any:
  "map_of r ''data'' = Some (JObj d) \<Longrightarrow> map_of d ''text'' = Some (JStr t) \<Longrightarrow>
     text_preview_simple (JObj r) = Inr (JStr (take 200 t @ ''...''))"
  by (simp add: text_preview_simple_def and_then_def)

text \<open>The exception that ends a sequence of blocks, and its events.\<close>

lemma snd_seq: "snd (seq a b) = (case snd a of Some e \<Rightarrow> Some e | None \<Rightarrow> snd b)"
  by (simp add: seq_def split: option.splits)

lemma snd_emit: "snd (emit evs) = None"
  by (simp add: emit_def)

lemma block_ending_not_exit: "block_ending b \<noteq> Exited n"
  by (simp add: block_ending_def split: option.splits)

lemma crawl_step_failing:
  "failing (net (crawl_request c target_url crawl_options)) \<Longrightarrow>
     snd (crawl_step dump net t c) = None"
  by (simp add: crawl_step_def Let_def snd_seq snd_emit with_value_def crawl_failing)

lemma history_step_failing:
  "failing (net (history_request c)) \<Longrightarrow> snd (history_step net c) = None"
  by (simp add: history_step_def Let_def snd_seq snd_emit with_value_def history_failing
        print_history_def)

lemma client_main_ending:
  "result (demo_registration net t) = Inr True \<Longrightarrow>
     ending (client_main dump net t) =
       block_ending (seq (crawl_step dump net t (state (demo_registration net t)))
                         (history_step net (state (demo_registration net t))))"
  by (simp add: client_main_def Let_def finish_def crawl_state history_state block_ending_def
        snd_seq closing_lines_def snd_emit split: option.splits)

text \<open>
  C1. The two client scripts cut a text longer than 200 characters and leave a shorter one
  alone (\<open>text_preview_long\<close>, \<open>text_preview_short\<close>); \<^verbatim>\<open>simple_crawler.py\<close> appends
  the marker to every text (\<open>text_preview_simple_any\<close>). For the text \<^verbatim>\<open>abc\<close> its
  preview, and the line the script prints, is \<^verbatim>\<open>abc...\<close>, not the field unchanged.
\<close>

theorem simple_preview_marks_short_text:
  "text_preview_simple short_result = Inr (JStr ''abc...'') \<and>
   Print [Lit ''Text Preview: '', Str (JStr ''abc...'')]
     \<in> set (trace (simple_main dump ''my-key'' (server_body short_result) 0))"
  by (simp add: text_preview_simple_def and_then_def short_result_def simple_main_def
        placeholder_key_def crawl_with_api_key_def server_body_def http_error_def Let_def
        seq_def emit_def with_value_def print_simple_summary_def print_metadata_def finish_def)

text \<open>
  The claim C4 as stated fails in \<^verbatim>\<open>crawlio_client.py\<close>: when the server cannot be
  reached the registration fails and the script exits with status 1.
\<close>

theorem failed_registration_exits_counterexample:
  "ending (client_main (dump_writes []) server_down 0) = Exited 1"
  by (simp add: client_main_def demo_registration_def Let_def register_failing server_down_def
        register_failed_def)

text \<open>
  C4, as the code has it. A script ends by \<^verbatim>\<open>sys.exit\<close> in exactly two cases, each
  with status 1: \<^verbatim>\<open>simple_crawler.py\<close> when its constant still holds the placeholder,
  before any HTTP call, and \<^verbatim>\<open>crawlio_client.py\<close> when the registration returns
  \<^verbatim>\<open>False\<close>; \<^verbatim>\<open>crawl_wiki.py\<close> never ends so. A crawl or a history fetch that fails
  by a transport error or a status from 400 to 599 does not end a script:
  \<^verbatim>\<open>crawl_wiki.py\<close> and \<^verbatim>\<open>simple_crawler.py\<close> return, and \<^verbatim>\<open>crawlio_client.py\<close>
  goes on, its run ending as its other step ends (the history step after a failed crawl,
  the crawl step before a failed history fetch; it returns when both fail).
\<close>

theorem script_exit_points:
  "(ending (simple_main dump k net t) = Exited n \<longleftrightarrow> k = placeholder_key \<and> n = 1) \<and>
   filter is_http (trace (simple_main dump placeholder_key net t)) = [] \<and>
   (ending (client_main dump net t) = Exited n \<longleftrightarrow>
      result (demo_registration net t) = Inr False \<and> n = 1) \<and>
   ending (wiki_main net) \<noteq> Exited n \<and>
   (failing (net (crawl_request wiki_client target_url crawl_options)) \<longrightarrow>
      ending (wiki_main net) = Returned) \<and>
   (k \<noteq> placeholder_key \<and> failing (net (simple_request k target_url default_base_url)) \<longrightarrow>
      ending (simple_main dump k net t) = Returned) \<and>
   (result (demo_registration net t) = Inr True \<and>
    failing (net (crawl_request (state (demo_registration net t)) target_url crawl_options)) \<longrightarrow>
      ending (client_main dump net t)
        = block_ending (history_step net (state (demo_registration net t)))) \<and>
   (result (demo_registration net t) = Inr True \<and>
    failing (net (history_request (state (demo_registration net t)))) \<longrightarrow>
      ending (client_main dump net t)
        = block_ending (crawl_step dump net t (state (demo_registration net t)))) \<and>
   (result (demo_registration net t) = Inr True \<and>
    failing (net (crawl_request (state (demo_registration net t)) target_url crawl_options)) \<and>
    failing (net (history_request (state (demo_registration net t)))) \<longrightarrow>
      ending (client_main dump net t) = Returned)"
proof -
  let ?c = "state (demo_registration net t)"
  have simple_exit:
    "ending (simple_main dump k net t) = Exited n \<longleftrightarrow> k = placeholder_key \<and> n = 1"
    by (auto simp add: simple_main_def Let_def finish_def block_ending_not_exit
        split: sum.splits)
  have simple_quiet: "filter is_http (trace (simple_main dump placeholder_key net t)) = []"
    by (simp add: simple_main_def)
  have client_exit:
    "ending (client_main dump net t) = Exited n \<longleftrightarrow>
       result (demo_registration net t) = Inr False \<and> n = 1"
    by (auto simp add: client_main_def Let_def finish_def block_ending_not_exit
        split: sum.splits)
  have wiki_exit: "ending (wiki_main net) \<noteq> Exited n"
    by (simp add: wiki_main_def Let_def finish_def block_ending_not_exit split: sum.splits)
  have wiki_fail: "ending (wiki_main net) = Returned"
    if "failing (net (crawl_request wiki_client target_url crawl_options))"
    using that crawl_failing [of net wiki_client target_url crawl_options]
    by (simp add: wiki_main_def Let_def wiki_client_def fresh_client_def)
  have simple_fail: "ending (simple_main dump k net t) = Returned"
    if "k \<noteq> placeholder_key" "failing (net (simple_request k target_url default_base_url))"
    using that by (simp add: simple_main_def Let_def simple_failing)
  have after_crawl: "ending (client_main dump net t) = block_ending (history_step net ?c)"
    if "result (demo_registration net t) = Inr True"
       "failing (net (crawl_request ?c target_url crawl_options))"
    using that(2) client_main_ending [OF that(1), of dump]
      crawl_step_failing [of net "?c" dump t]
    by (simp add: block_ending_def snd_seq)
  have before_history:
    "ending (client_main dump net t) = block_ending (crawl_step dump net t ?c)"
    if "result (demo_registration net t) = Inr True" "failing (net (history_request ?c))"
    using that(2) client_main_ending [OF that(1), of dump] history_step_failing [of net "?c"]
    by (simp add: block_ending_def snd_seq split: option.splits)
  have both: "ending (client_main dump net t) = Returned"
    if "result (demo_registration net t) = Inr True"
       "failing (net (crawl_request ?c target_url crawl_options))"
       "failing (net (history_request ?c))"
    using that(3) after_crawl [OF that(1,2)] history_step_failing [of net "?c"]
    by (simp add: block_ending_def)
  show ?thesis
    using simple_exit simple_quiet client_exit wiki_exit wiki_fail simple_fail after_crawl
      before_history both
    by blast
qed

theorem script_exit_points_witness:
  "ending (simple_main (dump_writes []) placeholder_key server_down 0) = Exited 1 \<and>
   result (demo_registration server_down 0) = Inr False \<and>
   ending (client_main (dump_writes []) server_down 0) = Exited 1 \<and>
   failing (server_down (crawl_request wiki_client target_url crawl_options)) \<and>
   ending (wiki_main server_down) = Returned \<and>
   ''my-key'' \<noteq> placeholder_key \<and>
   failing (server_down (simple_request ''my-key'' target_url default_base_url)) \<and>
   ending (simple_main (dump_writes []) ''my-key'' server_down 0) = Returned \<and>
   result (demo_registration server_register_only 0) = Inr True \<and>
   failing (server_register_only
     (crawl_request (state (demo_registration server_register_only 0)) target_url crawl_options)) \<and>
   failing (server_register_only
     (history_request (state (demo_registration server_register_only 0)))) \<and>
   ending (client_main (dump_writes []) server_register_only 0) = Returned \<and>
   result (demo_registration server_without_history 0) = Inr True \<and>
   failing (server_without_history
     (history_request (state (demo_registration server_without_history 0)))) \<and>
   ending (client_main (dump_writes []) server_without_history 0)
     = block_ending (crawl_step (dump_writes []) server_without_history 0
         (state (demo_registration server_without_history 0)))"
proof -
  have reg_down: "result (demo_registration server_down 0) = Inr False"
    by (simp add: demo_registration_def register_failing server_down_def register_failed_def)
  have reg_ok: "result (demo_registration server_register_only 0) = Inr True"
    by (simp add: demo_registration_def register_user_def register_request_def Let_def
          server_register_only_def init_client_def rstrip_slash_def default_base_url_def
          dict_get_def http_error_def)
  have crawl_down: "failing (server_register_only
     (crawl_request (state (demo_registration server_register_only 0)) target_url crawl_options))"
    by (simp add: crawl_request_def server_register_only_def default_base_url_def)
  have hist_down: "failing (server_register_only
     (history_request (state (demo_registration server_register_only 0))))"
    by (simp add: history_request_def server_register_only_def default_base_url_def)
  have reg_ok2: "result (demo_registration server_without_history 0) = Inr True"
    by (simp add: demo_registration_def register_user_def register_request_def Let_def
          server_without_history_def init_client_def rstrip_slash_def default_base_url_def
          dict_get_def http_error_def)
  have hist_down2: "failing (server_without_history
     (history_request (state (demo_registration server_without_history 0))))"
    by (simp add: history_request_def server_without_history_def default_base_url_def
          http_error_def)
  have key: "''my-key'' \<noteq> placeholder_key"
    by (simp add: placeholder_key_def)
  have wiki_down: "failing (server_down (crawl_request wiki_client target_url crawl_options))"
    and simple_down:
      "failing (server_down (simple_request ''my-key'' target_url default_base_url))"
    by (simp_all add: server_down_def)
  note at_placeholder =
    script_exit_points [of "dump_writes []" placeholder_key server_down 0 1]
  note at_down = script_exit_points [of "dump_writes []" "''my-key''" server_down 0 1]
  note at_register_only =
    script_exit_points [of "dump_writes []" "''my-key''" server_register_only 0 1]
  note at_without_history =
    script_exit_points [of "dump_writes []" "''my-key''" server_without_history 0 1]
  have e1: "ending (simple_main (dump_writes []) placeholder_key server_down 0) = Exited 1"
    using at_placeholder by blast
  have e2: "ending (client_main (dump_writes []) server_down 0) = Exited 1"
    using at_down reg_down by blast
  have e3: "ending (wiki_main server_down) = Returned"
    using at_down wiki_down by blast
  have e4: "ending (simple_main (dump_writes []) ''my-key'' server_down 0) = Returned"
    using at_down key simple_down by blast
  have e5: "ending (client_main (dump_writes []) server_register_only 0) = Returned"
    using at_register_only reg_ok crawl_down hist_down by blast
  have e6: "ending (client_main (dump_writes []) server_without_history 0)
     = block_ending (crawl_step (dump_writes []) server_without_history 0
         (state (demo_registration server_without_history 0)))"
    using at_without_history reg_ok2 hist_down2 by blast
  show ?thesis
    using reg_down reg_ok crawl_down hist_down reg_ok2 hist_down2 key wiki_down simple_down
      e1 e2 e3 e4 e5 e6
    by blast
qed

text \<open>
  The claim C3 as stated fails for crawl: a success response whose body lacks the expected
  fields is returned to the caller, a value whose truth value is true, and the line printed
  last reports success.
\<close>

theorem unexpected_body_is_success_counterexample:
  "truthy (api_key keyed_client) \<and>
   result (crawl_url (server_body unexpected_body) keyed_client target_url crawl_options)
     = Inr unexpected_body \<and>
   truthy unexpected_body \<and>
   last (events (crawl_url (server_body unexpected_body) keyed_client target_url crawl_options))
     = Print [Lit ''Crawling completed successfully!'']"
  by (simp add: client_defs fixture_defs unexpected_body_def)

text \<open>
  C3, as the code has it. For register, a transport error, a failure status and a JSON
  object without the token field each give \<^verbatim>\<open>False\<close> and a printed line that starts
  with \<^verbatim>\<open>Registration failed\<close>. For crawl and history on a client with a token, a
  transport error and a failure status give \<^verbatim>\<open>None\<close> and a printed diagnostic; a success
  response is not checked for its fields: its parsed body is returned as it is and the
  success line is printed last.
\<close>

theorem failure_outcomes:
  "(failing (net (register_request c email password first_name last_name)) \<longrightarrow>
      result (register_user net c email password first_name last_name) = Inr False \<and>
      diagnosed ''Registration failed''
        (events (register_user net c email password first_name last_name))) \<and>
   (net (register_request c email password first_name last_name) = Returns r \<and>
    http_error r = None \<and> json_result r = Parsed (JObj d) \<and> map_of d ''api_key'' = None \<longrightarrow>
      result (register_user net c email password first_name last_name) = Inr False \<and>
      diagnosed ''Registration failed''
        (events (register_user net c email password first_name last_name))) \<and>
   (truthy (api_key c) \<and> failing (net (crawl_request c target options)) \<longrightarrow>
      result (crawl_url net c target options) = Inr JNull \<and>
      diagnosed ''Crawling failed'' (events (crawl_url net c target options))) \<and>
   (truthy (api_key c) \<and> failing (net (history_request c)) \<longrightarrow>
      result (get_crawl_history net c) = Inr JNull \<and>
      diagnosed ''Failed to get history'' (events (get_crawl_history net c))) \<and>
   (truthy (api_key c) \<and> net (crawl_request c target options) = Returns r \<and>
    http_error r = None \<and> json_result r = Parsed body \<longrightarrow>
      result (crawl_url net c target options) = Inr body \<and>
      last (events (crawl_url net c target options))
        = Print [Lit ''Crawling completed successfully!'']) \<and>
   (truthy (api_key c) \<and> net (history_request c) = Returns r \<and>
    http_error r = None \<and> json_result r = Parsed body \<longrightarrow>
      result (get_crawl_history net c) = Inr body \<and>
      last (events (get_crawl_history net c))
        = Print [Lit ''History retrieved successfully!''])"
  by (auto simp add: client_defs diagnosed_def dict_get_def
      split: net_outcome.splits option.splits)

theorem failure_outcomes_witness:
  "failing (server_error (register_request keyed_client ''a@example.com'' ''pw'' ''Ann'' ''Lee'')) \<and>
   result (register_user server_error keyed_client ''a@example.com'' ''pw'' ''Ann'' ''Lee'')
     = Inr False \<and>
   diagnosed ''Registration failed''
     (events (register_user server_error keyed_client ''a@example.com'' ''pw'' ''Ann'' ''Lee'')) \<and>
   result (register_user (server_body (JObj [])) keyed_client ''a@example.com'' ''pw'' ''Ann'' ''Lee'')
     = Inr False \<and>
   diagnosed ''Registration failed''
     (events (register_user (server_body (JObj [])) keyed_client
        ''a@example.com'' ''pw'' ''Ann'' ''Lee'')) \<and>
   truthy (api_key keyed_client) \<and>
   result (crawl_url server_error keyed_client target_url crawl_options) = Inr JNull \<and>
   diagnosed ''Crawling failed''
     (events (crawl_url server_error keyed_client target_url crawl_options)) \<and>
   result (get_crawl_history server_error keyed_client) = Inr JNull \<and>
   diagnosed ''Failed to get history'' (events (get_crawl_history server_error keyed_client)) \<and>
   result (crawl_url (server_body unexpected_body) keyed_client target_url crawl_options)
     = Inr unexpected_body \<and>
   result (get_crawl_history (server_body unexpected_body) keyed_client) = Inr unexpected_body"
proof -
  have tok: "truthy (api_key keyed_client)"
    by (simp add: keyed_client_def)
  show ?thesis
    using tok
      failure_outcomes [of server_error keyed_client "''a@example.com''" "''pw''" "''Ann''" "''Lee''"
             "Response 200 [] [] (Parsed (JObj []))" "[]" target_url crawl_options "JObj []"]
      failure_outcomes [of "server_body (JObj [])" keyed_client "''a@example.com''" "''pw''" "''Ann''" "''Lee''"
             "Response 200 [] [] (Parsed (JObj []))" "[]" target_url crawl_options "JObj []"]
      failure_outcomes [of "server_body unexpected_body" keyed_client
             "''a@example.com''" "''pw''" "''Ann''" "''Lee''"
             "Response 200 [] [] (Parsed unexpected_body)" "[]" target_url crawl_options
             unexpected_body]
    by (simp add: server_error_def server_body_def http_error_def)
qed

section \<open>The saved result\<close>
































end
